theory Spec2Isabelle
  imports Complex_Main
begin

section \<open>frankenz/pdf.py: the kernel-dictionary density engine\<close>

text \<open>
  A shallow embedding of \<^verbatim>\<open>gaussian\<close>, \<^verbatim>\<open>gauss_kde\<close>, \<^verbatim>\<open>gauss_kde_dict\<close> and the class
  \<^verbatim>\<open>PDFDict\<close> of \<^verbatim>\<open>src/frankenz/pdf.py\<close>.

  Numbers: a Python/numpy integer is an \<open>int\<close>, a float64 is a \<open>real\<close> (exact real
  arithmetic; rounding error, overflow and underflow of float64 are outside the model).
  A one-dimensional numpy array is a list.

  Outcomes: every model of a source function returns \<open>failure + 'a\<close>. \<open>IndexError\<close> and
  \<open>ValueError\<close> are the Python exceptions the source raises. The two other
  constructors are not exceptions; they mark the places where this model stops following
  the source:
  \<^item> \<open>NonFinite\<close>: a float operation of the source leaves the real numbers (a division
    by zero gives \<open>inf\<close> or \<open>nan\<close> under numpy, with a RuntimeWarning and no
    exception), and the value is then stored in the result or converted to an integer;
  \<^item> \<open>ShapeMismatch\<close>: the arrays of one batch (documented as all of shape \<open>(Ny,)\<close>) have
    different lengths.
\<close>

datatype failure = IndexError | ValueError | NonFinite | ShapeMismatch

subsection \<open>Python and numpy primitives\<close>

text \<open>Sequencing of fallible steps: the first failure is the outcome.\<close>

definition and_then :: "failure + 'a \<Rightarrow> ('a \<Rightarrow> failure + 'b) \<Rightarrow> failure + 'b" where
  "and_then m f = (case m of Inl e \<Rightarrow> Inl e | Inr v \<Rightarrow> f v)"

text \<open>\<^verbatim>\<open>xs[i]\<close>: a negative index counts from the end; out of range raises IndexError.\<close>

definition py_get :: "'a list \<Rightarrow> int \<Rightarrow> failure + 'a" where
  "py_get xs i =
     (if 0 \<le> i \<and> i < int (length xs) then Inr (xs ! nat i)
      else if i < 0 \<and> - int (length xs) \<le> i then Inr (xs ! nat (int (length xs) + i))
      else Inl IndexError)"

text \<open>
  \<^verbatim>\<open>xs[start:stop]\<close> (step 1): a negative bound counts from the end, both bounds are then
  clipped to \<open>[0, len]\<close>, and the slice is empty when the start is not below the stop.
  \<open>slice_bound\<close> is the clipped bound.
\<close>

definition slice_bound :: "nat \<Rightarrow> int \<Rightarrow> nat" where
  "slice_bound n i = (if i < 0 then nat (max (int n + i) 0) else min (nat i) n)"

definition py_slice :: "'a list \<Rightarrow> int \<Rightarrow> int \<Rightarrow> 'a list" where
  "py_slice xs start stop =
     (let s = slice_bound (length xs) start; e = slice_bound (length xs) stop
      in take (e - s) (drop s xs))"

text \<open>\<^verbatim>\<open>np.cumsum\<close>: the running sums, same length.\<close>

fun cumsum_from :: "real \<Rightarrow> real list \<Rightarrow> real list" where
  "cumsum_from acc [] = []"
| "cumsum_from acc (x # xs) = (acc + x) # cumsum_from (acc + x) xs"

definition cumsum :: "real list \<Rightarrow> real list" where
  "cumsum xs = cumsum_from 0 xs"

text \<open>
  \<^verbatim>\<open>np.round\<close> / \<^verbatim>\<open>ndarray.round\<close>: to the nearest integer, a tie to the even one.
\<close>

definition np_round :: "real \<Rightarrow> int" where
  "np_round x =
     (let f = \<lfloor>x\<rfloor>; r = x - of_int f
      in if r < 1 / 2 then f else if 1 / 2 < r then f + 1
         else if even f then f else f + 1)"

text \<open>\<^verbatim>\<open>np.array(v, dtype='int')\<close> on a finite float: truncation toward zero.\<close>

definition float_to_int :: "real \<Rightarrow> int" where
  "float_to_int x = (if 0 \<le> x then \<lfloor>x\<rfloor> else \<lceil>x\<rceil>)"

text \<open>
  Float division \<^verbatim>\<open>a / b\<close> of numpy scalars: \<open>None\<close> stands for the non-finite result
  (\<open>inf\<close>, \<open>-inf\<close> or \<open>nan\<close>) of a division by zero.
\<close>

definition np_divide :: "real \<Rightarrow> real \<Rightarrow> real option" where
  "np_divide a b = (if b = 0 then None else Some (a / b))"

text \<open>
  \<^verbatim>\<open>c * arr\<close> for a scalar \<open>c\<close> that may be non-finite: on an empty array the result is
  the empty array whatever \<open>c\<close> is; on a non-empty one a non-finite \<open>c\<close> gives non-finite
  entries.
\<close>

definition scale_array :: "real option \<Rightarrow> real list \<Rightarrow> failure + real list" where
  "scale_array c arr =
     (case c of
        Some v \<Rightarrow> Inr (map (\<lambda>k. v * k) arr)
      | None \<Rightarrow> if arr = [] then Inr [] else Inl NonFinite)"

text \<open>
  \<^verbatim>\<open>pdf[low:high] += vals\<close> on a numpy array: the target is the slice
  \<^verbatim>\<open>pdf[low:high]\<close>; \<open>vals\<close> must have the length of the target, or length one (it is
  then broadcast); anything else raises ValueError.
\<close>

definition add_at :: "real list \<Rightarrow> nat \<Rightarrow> real list \<Rightarrow> real list" where
  "add_at pdf s vals =
     take s pdf @ map2 (+) (take (length vals) (drop s pdf)) vals
       @ drop (s + length vals) pdf"

definition slice_iadd :: "real list \<Rightarrow> int \<Rightarrow> int \<Rightarrow> real list \<Rightarrow> failure + real list" where
  "slice_iadd pdf low high vals =
     (let s = slice_bound (length pdf) low; e = slice_bound (length pdf) high;
          len = e - s
      in if length vals = len then Inr (add_at pdf s vals)
         else if length vals = 1 then Inr (add_at pdf s (replicate len (hd vals)))
         else Inl ValueError)"

subsection \<open>Selection of the observations (the thresholding of both entry points)\<close>

text \<open>
  \<^verbatim>\<open>np.arange(Ny)[y_wt > (wt_thresh * np.max(y_wt))]\<close>, lines 409 and 490.
  \<^verbatim>\<open>np.max\<close> of an empty array raises ValueError.
\<close>

definition select_wt :: "real list \<Rightarrow> real \<Rightarrow> failure + nat list" where
  "select_wt y_wt wt_thresh =
     (if y_wt = [] then Inl ValueError
      else Inr (filter (\<lambda>j. y_wt ! j > wt_thresh * Max (set y_wt)) [0..<length y_wt]))"

text \<open>
  The same line when \<^verbatim>\<open>wt_thresh\<close> was set to \<^verbatim>\<open>-np.inf\<close> (both thresholds None):
  \<^verbatim>\<open>-inf * max\<close> is \<open>-inf\<close> for a positive maximum (every weight is above it), \<open>nan\<close>
  for a zero maximum and \<open>+inf\<close> for a negative one (no weight is above either).
\<close>

definition select_all :: "real list \<Rightarrow> failure + nat list" where
  "select_all y_wt =
     (if y_wt = [] then Inl ValueError
      else Inr (if 0 < Max (set y_wt) then [0..<length y_wt] else []))"

text \<open>
  Lines 412-415 and 493-496: \<^verbatim>\<open>idx_sort = np.argsort(y_wt)\<close>, the cumulative sums of
  the sorted weights, divided by the last one, and \<^verbatim>\<open>idx_sort[y_cdf <= (1. - cdf_thresh)]\<close>.
  \<^verbatim>\<open>argsort\<close> is modelled as the stable sort of the indices (numpy's default sort
  leaves the order of equal weights open). \<^verbatim>\<open>y_cdf[-1]\<close> on an empty array raises
  IndexError. When the total is zero the quotients are \<open>nan\<close> or infinite, and only
  \<open>-inf\<close> (a negative cumulative sum over zero) is below the threshold.
\<close>

definition argsort :: "real list \<Rightarrow> nat list" where
  "argsort y_wt = sort_key (\<lambda>j. y_wt ! j) [0..<length y_wt]"

definition cdf_keep :: "real \<Rightarrow> real \<Rightarrow> real \<Rightarrow> bool" where
  "cdf_keep tot cdf_thresh c =
     (if tot = 0 then c < 0 else c / tot \<le> 1 - cdf_thresh)"

definition select_cdf :: "real list \<Rightarrow> real \<Rightarrow> failure + nat list" where
  "select_cdf y_wt cdf_thresh =
     (let idx_sort = argsort y_wt;
          y_cdf = cumsum (map (\<lambda>j. y_wt ! j) idx_sort)
      in if y_cdf = [] then Inl IndexError
         else Inr (map fst (filter (\<lambda>(j, c). cdf_keep (last y_cdf) cdf_thresh c)
                              (zip idx_sort y_cdf))))"

text \<open>
  The choice between them, lines 477-478 with 488-496 (394-395 with 407-415): the
  relative amplitude when \<^verbatim>\<open>wt_thresh\<close> is given, otherwise the CDF when
  \<^verbatim>\<open>cdf_thresh\<close> is given, otherwise \<^verbatim>\<open>wt_thresh = -np.inf\<close>.
\<close>

definition sel_arr :: "real list \<Rightarrow> real option \<Rightarrow> real option \<Rightarrow> failure + nat list" where
  "sel_arr y_wt wt_thresh cdf_thresh =
     (case wt_thresh of
        Some t \<Rightarrow> select_wt y_wt t
      | None \<Rightarrow> (case cdf_thresh of
                  Some c \<Rightarrow> select_cdf y_wt c
                | None \<Rightarrow> select_all y_wt))"

text \<open>A list of fallible results, in order: the first failure, or all the values.\<close>

fun all_ok :: "(failure + 'a) list \<Rightarrow> failure + 'a list" where
  "all_ok [] = Inr []"
| "all_ok (m # ms) =
     (case m of Inl e \<Rightarrow> Inl e
      | Inr v \<Rightarrow> (case all_ok ms of Inl e \<Rightarrow> Inl e | Inr vs \<Rightarrow> Inr (v # vs)))"

subsection \<open>The Gaussian kernel (lines 313-324)\<close>

definition gaussian_at :: "real \<Rightarrow> real \<Rightarrow> real \<Rightarrow> real" where
  "gaussian_at mu std x = exp (- (1 / 2) * ((x - mu) / std)\<^sup>2) / (sqrt (2 * pi) * std)"

text \<open>
  \<^verbatim>\<open>gaussian(mu, std, x)\<close> over an array \<open>x\<close>. With \<open>std = 0\<close> every entry is \<open>nan\<close>; on
  an empty array the result is the empty array.
\<close>

definition gaussian :: "real \<Rightarrow> real \<Rightarrow> real list \<Rightarrow> failure + real list" where
  "gaussian mu std x =
     (if std = 0 \<and> x \<noteq> [] then Inl NonFinite else Inr (map (gaussian_at mu std) x))"

subsection \<open>The class PDFDict (lines 677-751)\<close>

record PDFDict =
  Ngrid :: int
  pdf_min :: real
  pdf_max :: real
  delta :: real
  grid :: "real list"
  Ndict :: int
  sigma_grid :: "real list"
  dsigma :: real
  sigma_width :: "int list"
  sigma_dict :: "real list list"
  sigma_dict_cdf :: "real list list"

text \<open>
  \<^verbatim>\<open>np.array(np.ceil(sigma_grid * sigma_trunc / self.delta), dtype='int')\<close>, one entry.
\<close>

definition kernel_width :: "real \<Rightarrow> real \<Rightarrow> real \<Rightarrow> int" where
  "kernel_width sigma_trunc dlt s = \<lceil>s * sigma_trunc / dlt\<rceil>"

text \<open>
  One kernel of the list comprehension of lines 714-717:
  \<^verbatim>\<open>gaussian(mu=self.grid[mid], std=s, x=self.grid[mid-w:mid+w+1])\<close>.
\<close>

definition make_kernel :: "real list \<Rightarrow> int \<Rightarrow> real \<Rightarrow> int \<Rightarrow> failure + real list" where
  "make_kernel g mid s w =
     and_then (py_get g mid) (\<lambda>mu. gaussian mu s (py_slice g (mid - w) (mid + w + 1)))"

text \<open>
  \<^verbatim>\<open>PDFDict.__init__\<close>. The builtin \<^verbatim>\<open>min\<close> raises ValueError on an empty grid,
  \<^verbatim>\<open>pdf_grid[1]\<close> and \<^verbatim>\<open>sigma_grid[1]\<close> raise IndexError on a one-point grid. With
  \<open>delta = 0\<close> the widths are the integer conversion of \<open>inf\<close> or \<open>nan\<close>. There is no
  other check.
\<close>

definition PDFDict_init :: "real list \<Rightarrow> real list \<Rightarrow> real \<Rightarrow> failure + PDFDict" where
  "PDFDict_init pdf_grid sgrid sigma_trunc =
     (if pdf_grid = [] then Inl ValueError
      else
        and_then (py_get pdf_grid 1) (\<lambda>g1.
        and_then (py_get pdf_grid 0) (\<lambda>g0.
        and_then (py_get sgrid 1) (\<lambda>s1.
        and_then (py_get sgrid 0) (\<lambda>s0.
          let dlt = g1 - g0;
              n = int (length pdf_grid);
              mid = n div 2
          in if dlt = 0 then Inl NonFinite
             else
               let widths = map (kernel_width sigma_trunc dlt) sgrid
               in and_then (all_ok (map (\<lambda>(s, w). make_kernel pdf_grid mid s w)
                                      (zip sgrid widths))) (\<lambda>kernels.
                    Inr \<lparr> Ngrid = n,
                          pdf_min = Min (set pdf_grid),
                          pdf_max = Max (set pdf_grid),
                          delta = dlt,
                          grid = pdf_grid,
                          Ndict = int (length sgrid),
                          sigma_grid = sgrid,
                          dsigma = s1 - s0,
                          sigma_width = widths,
                          sigma_dict = kernels,
                          sigma_dict_cdf = map cumsum kernels \<rparr>))))))"

text \<open>
  \<^verbatim>\<open>PDFDict.fit\<close>, lines 720-751. The mean index is the rounded offset from
  \<^verbatim>\<open>grid[0]\<close> in units of \<^verbatim>\<open>delta\<close>, not clipped; the sigma index is rounded the same
  way, then the ceiling \<^verbatim>\<open>Ndict - 1\<close> and the floor \<open>0\<close> are imposed, in that order.
\<close>

definition mean_index :: "real \<Rightarrow> real \<Rightarrow> real \<Rightarrow> failure + int" where
  "mean_index g0 dlt v = (if dlt = 0 then Inl NonFinite else Inr (np_round ((v - g0) / dlt)))"

definition sigma_index :: "real \<Rightarrow> real \<Rightarrow> int \<Rightarrow> real \<Rightarrow> failure + int" where
  "sigma_index s0 ds nd e =
     (if ds = 0 then Inl NonFinite
      else
        let k = np_round ((e - s0) / ds);
            k1 = (if k \<ge> nd then nd - 1 else k)
        in Inr (if k1 < 0 then 0 else k1))"

definition fit :: "PDFDict \<Rightarrow> real list \<Rightarrow> real list \<Rightarrow> failure + int list \<times> int list" where
  "fit self X Xe =
     and_then (py_get (grid self) 0) (\<lambda>g0.
     and_then (all_ok (map (mean_index g0 (delta self)) X)) (\<lambda>X_idx.
     and_then (py_get (sigma_grid self) 0) (\<lambda>s0.
     and_then (all_ok (map (sigma_index s0 (dsigma self) (Ndict self)) Xe)) (\<lambda>Xe_idx.
       Inr (X_idx, Xe_idx)))))"

subsection \<open>The dictionary path: gauss_kde_dict (lines 428-521)\<close>

text \<open>
  The normaliser of lines 513-516: \<^verbatim>\<open>kcdf[hpad-1]\<close>, less \<^verbatim>\<open>kcdf[lpad-1]\<close> unless
  \<^verbatim>\<open>lpad == 0\<close>.
\<close>

definition kde_norm :: "real list \<Rightarrow> int \<Rightarrow> int \<Rightarrow> failure + real" where
  "kde_norm kcdf lpad hpad =
     (if lpad = 0 then py_get kcdf (hpad - 1)
      else and_then (py_get kcdf (hpad - 1)) (\<lambda>a.
           and_then (py_get kcdf (lpad - 1)) (\<lambda>b. Inr (a - b))))"

text \<open>
  The body of the loop of lines 502-519 for the observation with kernel center \<open>pos\<close>,
  dictionary element \<open>idx\<close> and weight \<open>wt\<close>, on the array \<open>pdf\<close>.
\<close>

definition stack_kernel :: "PDFDict \<Rightarrow> real list \<Rightarrow> int \<Rightarrow> int \<Rightarrow> real \<Rightarrow> failure + real list" where
  "stack_kernel pdfdict pdf pos idx wt =
     and_then (py_get (sigma_dict pdfdict) idx) (\<lambda>kernel.
     and_then (py_get (sigma_width pdfdict) idx) (\<lambda>width.
     and_then (py_get (sigma_dict_cdf pdfdict) idx) (\<lambda>kcdf.
       let Nx = Ngrid pdfdict;
           low = max (pos - width) 0;
           high = min (pos + width + 1) Nx;
           lpad = low - (pos - width);
           hpad = high - (pos + width + 1)
       in and_then (kde_norm kcdf lpad hpad) (\<lambda>norm.
          and_then (scale_array (np_divide wt norm)
                      (py_slice kernel lpad (2 * width + 1 + hpad))) (\<lambda>vals.
            slice_iadd pdf low high vals)))))"

text \<open>The loop \<^verbatim>\<open>for i in sel_arr\<close>: the first failure ends the call.\<close>

fun stack_all ::
  "PDFDict \<Rightarrow> int list \<Rightarrow> int list \<Rightarrow> real list \<Rightarrow> real list \<Rightarrow> nat list \<Rightarrow> failure + real list"
where
  "stack_all pdfdict y_idx y_std_idx y_wt pdf [] = Inr pdf"
| "stack_all pdfdict y_idx y_std_idx y_wt pdf (i # sel) =
     and_then (py_get y_std_idx (int i)) (\<lambda>idx.
     and_then (py_get y_idx (int i)) (\<lambda>pos.
     and_then (py_get y_wt (int i)) (\<lambda>wt.
     and_then (stack_kernel pdfdict pdf pos idx wt) (\<lambda>pdf'.
       stack_all pdfdict y_idx y_std_idx y_wt pdf' sel))))"

text \<open>
  The input check of lines 469-476: the pair of indices when both are given, otherwise
  the fit of the raw pair when both are given, otherwise ValueError.
\<close>

definition kde_inputs ::
  "PDFDict \<Rightarrow> real list option \<Rightarrow> real list option \<Rightarrow> int list option \<Rightarrow> int list option
     \<Rightarrow> failure + int list \<times> int list"
where
  "kde_inputs pdfdict y y_std y_idx y_std_idx =
     (case (y_idx, y_std_idx) of
        (Some yi, Some ysi) \<Rightarrow> Inr (yi, ysi)
      | _ \<Rightarrow> (case (y, y_std) of
                (Some yv, Some ys) \<Rightarrow> fit pdfdict yv ys
              | _ \<Rightarrow> Inl ValueError))"

definition gauss_kde_dict ::
  "PDFDict \<Rightarrow> real list option \<Rightarrow> real list option \<Rightarrow> int list option \<Rightarrow> int list option
     \<Rightarrow> real list option \<Rightarrow> real option \<Rightarrow> real option \<Rightarrow> failure + real list"
where
  "gauss_kde_dict pdfdict y y_std y_idx y_std_idx y_wt wt_thresh cdf_thresh =
     and_then (kde_inputs pdfdict y y_std y_idx y_std_idx) (\<lambda>(yi, ysi).
       let Nx = Ngrid pdfdict;
           pdf = replicate (nat Nx) 0;
           Ny = length yi;
           wts = (case y_wt of None \<Rightarrow> replicate Ny 1 | Some w \<Rightarrow> w)
       in if length ysi = Ny \<and> length wts = Ny
          then and_then (sel_arr wts wt_thresh cdf_thresh) (\<lambda>sel.
                 stack_all pdfdict yi ysi wts pdf sel)
          else Inl ShapeMismatch)"

subsection \<open>The direct path: gauss_kde (lines 343-425)\<close>

text \<open>
  Lines 398-401, for one observation: the discretised center and offset (conversions to
  integer, which truncate), the bounds \<^verbatim>\<open>centers + offsets\<close> and
  \<^verbatim>\<open>centers - offsets\<close>, and \<^verbatim>\<open>uppers[uppers > Nx], lowers[lowers < 0] = Nx, 0\<close>.
\<close>

definition center_of :: "real \<Rightarrow> real \<Rightarrow> real \<Rightarrow> int" where
  "center_of x0 dx yv = float_to_int ((yv - x0) / dx)"

definition offset_of :: "real \<Rightarrow> real \<Rightarrow> real \<Rightarrow> int" where
  "offset_of sig_thresh dx ys = float_to_int (sig_thresh * ys / dx)"

definition upper_of :: "int \<Rightarrow> int \<Rightarrow> int \<Rightarrow> int" where
  "upper_of Nx c off = (if c + off > Nx then Nx else c + off)"

definition lower_of :: "int \<Rightarrow> int \<Rightarrow> int" where
  "lower_of c off = (if c - off < 0 then 0 else c - off)"

definition kde_bounds ::
  "real \<Rightarrow> real \<Rightarrow> real \<Rightarrow> int \<Rightarrow> real list \<Rightarrow> real list \<Rightarrow> (int \<times> int) list"
where
  "kde_bounds x0 dx sig_thresh Nx y y_std =
     (let centers = map (center_of x0 dx) y;
          offsets = map (offset_of sig_thresh dx) y_std
      in map2 (\<lambda>c off. (lower_of c off, upper_of Nx c off)) centers offsets)"

text \<open>The body of the loop of lines 418-423.\<close>

definition kde_step ::
  "real list \<Rightarrow> real list \<Rightarrow> real \<Rightarrow> real \<Rightarrow> real \<Rightarrow> int \<Rightarrow> int \<Rightarrow> failure + real list"
where
  "kde_step x pdf yv ys wt lower upper =
     and_then (gaussian yv ys (py_slice x lower upper)) (\<lambda>gkde.
       let norm = sum_list gkde
       in if norm \<noteq> 0
          then slice_iadd pdf lower upper (map (\<lambda>k. wt / norm * k) gkde)
          else Inr pdf)"

fun kde_all ::
  "real list \<Rightarrow> (int \<times> int) list \<Rightarrow> real list \<Rightarrow> real list \<Rightarrow> real list \<Rightarrow> real list
     \<Rightarrow> nat list \<Rightarrow> failure + real list"
where
  "kde_all x bounds y y_std y_wt pdf [] = Inr pdf"
| "kde_all x bounds y y_std y_wt pdf (i # sel) =
     and_then (py_get y (int i)) (\<lambda>yv.
     and_then (py_get y_std (int i)) (\<lambda>ys.
     and_then (py_get bounds (int i)) (\<lambda>(lower, upper).
     and_then (py_get y_wt (int i)) (\<lambda>wt.
     and_then (kde_step x pdf yv ys wt lower upper) (\<lambda>pdf'.
       kde_all x bounds y y_std y_wt pdf' sel)))))"

text \<open>
  \<^verbatim>\<open>gauss_kde\<close>. \<^verbatim>\<open>x[1]\<close> and \<^verbatim>\<open>x[0]\<close> raise IndexError on a grid too short; with
  \<open>dx = 0\<close> the centers of a non-empty batch are the integer conversion of \<open>inf\<close> or
  \<open>nan\<close>.
\<close>

definition gauss_kde ::
  "real list \<Rightarrow> real list \<Rightarrow> real list \<Rightarrow> real option \<Rightarrow> real list option \<Rightarrow> real
     \<Rightarrow> real option \<Rightarrow> real option \<Rightarrow> failure + real list"
where
  "gauss_kde y y_std x dx y_wt sig_thresh wt_thresh cdf_thresh =
     (let Nx = length x; Ny = length y
      in and_then (case dx of
                     Some d \<Rightarrow> Inr d
                   | None \<Rightarrow> and_then (py_get x 1) (\<lambda>x1.
                             and_then (py_get x 0) (\<lambda>x0. Inr (x1 - x0)))) (\<lambda>d.
         let wts = (case y_wt of None \<Rightarrow> replicate Ny 1 | Some w \<Rightarrow> w)
         in if length y_std = Ny \<and> length wts = Ny
            then and_then (py_get x 0) (\<lambda>x0.
                 if d = 0 \<and> y \<noteq> [] then Inl NonFinite
                 else
                   let bounds = kde_bounds x0 d sig_thresh (int Nx) y y_std
                   in and_then (sel_arr wts wt_thresh cdf_thresh) (\<lambda>sel.
                        kde_all x bounds y y_std wts (replicate Nx 0) sel))
            else Inl ShapeMismatch))"

subsection \<open>Well-formed dictionary entries\<close>

text \<open>
  What \<^verbatim>\<open>gauss_kde_dict\<close> expects of the entry \<open>i\<close> of a dictionary: the kernel has
  \<open>2 * width + 1\<close> values, they are positive (values of a Gaussian density), and the stored
  CDF is their cumulative sum. \<^verbatim>\<open>PDFDict.__init__\<close> establishes this for every entry
  with a positive sigma whose slice stays inside the grid.
\<close>

definition entry_ok :: "PDFDict \<Rightarrow> nat \<Rightarrow> bool" where
  "entry_ok pdfdict i \<longleftrightarrow>
     i < length (sigma_dict pdfdict) \<and> i < length (sigma_width pdfdict) \<and>
     i < length (sigma_dict_cdf pdfdict) \<and>
     int (length (sigma_dict pdfdict ! i)) = 2 * (sigma_width pdfdict ! i) + 1 \<and>
     sigma_dict_cdf pdfdict ! i = cumsum (sigma_dict pdfdict ! i) \<and>
     list_all (\<lambda>k. 0 < k) (sigma_dict pdfdict ! i)"

subsection \<open>The window of the direct path as the specification words it\<close>

text \<open>
  Not taken from the source: the window as the specification describes it, for comparison
  with \<open>kde_bounds\<close>. "Compute integer grid-center and a symmetric window of half-width
  \<open>round(sig_thresh*sigma/delta)\<close>, clamp window to \<open>[0, Ngrid]\<close>." The center is the
  source's; the half-width is rounded to nearest and both ends are clamped on both sides.
\<close>

definition spec_kde_window :: "real \<Rightarrow> real \<Rightarrow> real \<Rightarrow> int \<Rightarrow> real \<Rightarrow> real \<Rightarrow> int \<times> int" where
  "spec_kde_window x0 dx sig_thresh Nx yv ys =
     (let c = center_of x0 dx yv;
          h = np_round (sig_thresh * ys / dx)
      in (max 0 (min Nx (c - h)), max 0 (min Nx (c + h))))"

subsection \<open>The concrete scenario of the specification\<close>

text \<open>
  The grid \<open>[-5, -4, ..., 5]\<close> and the sigma grid \<open>[0.5, 1.0, 1.5]\<close> of the specification's
  concrete scenario (its section 8), used with the default \<open>sigma_trunc = 5\<close>.
\<close>

definition scenario_grid :: "real list" where
  "scenario_grid = [-5, -4, -3, -2, -1, 0, 1, 2, 3, 4, 5]"

definition scenario_sigmas :: "real list" where
  "scenario_sigmas = [1 / 2, 1, 3 / 2]"

section \<open>Properties\<close>

subsection \<open>Auxiliary facts\<close>

lemma and_then_Inr [simp]: "and_then (Inr v) f = f v"
  by (simp add: and_then_def)

lemma and_then_Inl [simp]: "and_then (Inl e) f = Inl e"
  by (simp add: and_then_def)

lemma and_then_eq_Inr:
  "and_then m f = Inr r \<longleftrightarrow> (\<exists>v. m = Inr v \<and> f v = Inr r)"
  by (cases m) simp_all

lemma py_get_nat: "i < length xs \<Longrightarrow> py_get xs (int i) = Inr (xs ! i)"
  by (simp add: py_get_def)

lemma py_get_eq_Inr:
  "py_get xs i = Inr v \<Longrightarrow> (0 \<le> i \<and> i < int (length xs) \<and> v = xs ! nat i)
     \<or> (i < 0 \<and> - int (length xs) \<le> i \<and> v = xs ! nat (int (length xs) + i))"
  by (auto simp: py_get_def Let_def split: if_splits)

lemma all_ok_map_Inr:
  "(\<And>x. x \<in> set xs \<Longrightarrow> f x = Inr (g x)) \<Longrightarrow> all_ok (map f xs) = Inr (map g xs)"
  by (induction xs) simp_all

lemma all_ok_length: "all_ok ms = Inr vs \<Longrightarrow> length vs = length ms"
  by (induction ms arbitrary: vs) (auto split: sum.splits)

lemma all_ok_nth: "all_ok ms = Inr vs \<Longrightarrow> i < length ms \<Longrightarrow> ms ! i = Inr (vs ! i)"
proof (induction ms arbitrary: vs i)
  case Nil
  then show ?case by simp
next
  case (Cons m ms)
  then show ?case by (cases i) (auto split: sum.splits)
qed

lemma np_round_of_int [simp]: "np_round (of_int k) = k"
  by (simp add: np_round_def)

lemma np_round_of_nat [simp]: "np_round (real k) = int k"
  using np_round_of_int [of "int k"] by simp

lemma PDFDict_init_fields:
  assumes "PDFDict_init pdf_grid sgrid sigma_trunc = Inr self"
  shows "2 \<le> length pdf_grid" and "2 \<le> length sgrid"
    and "pdf_grid ! 1 \<noteq> pdf_grid ! 0"
    and "Ngrid self = int (length pdf_grid)" and "grid self = pdf_grid"
    and "delta self = pdf_grid ! 1 - pdf_grid ! 0"
    and "Ndict self = int (length sgrid)" and "sigma_grid self = sgrid"
    and "dsigma self = sgrid ! 1 - sgrid ! 0"
    and "sigma_width self = map (kernel_width sigma_trunc (pdf_grid ! 1 - pdf_grid ! 0)) sgrid"
    and "all_ok (map (\<lambda>(s, w). make_kernel pdf_grid (int (length pdf_grid) div 2) s w)
           (zip sgrid (sigma_width self))) = Inr (sigma_dict self)"
    and "sigma_dict_cdf self = map cumsum (sigma_dict self)"
  using assms
  by (auto simp: PDFDict_init_def and_then_eq_Inr Let_def py_get_def split: if_splits)

lemma gaussian_at_pos: "0 < std \<Longrightarrow> 0 < gaussian_at mu std x"
  by (simp add: gaussian_at_def)

lemma PDFDict_init_example: "\<exists>self. PDFDict_init [0, 1, 2, 3, 4] [1 / 4, 1 / 2] 1 = Inr self"
  by (simp add: PDFDict_init_def py_get_def make_kernel_def gaussian_def kernel_width_def py_slice_def slice_bound_def Let_def)

lemma length_py_slice:
  "length (py_slice xs a b) = slice_bound (length xs) b - slice_bound (length xs) a"
proof -
  have "slice_bound (length xs) b \<le> length xs"
    by (auto simp: slice_bound_def)
  then show ?thesis
    by (simp add: py_slice_def Let_def)
qed

lemma gaussian_eq_Inr:
  "gaussian mu std x = Inr ks \<Longrightarrow> ks = map (gaussian_at mu std) x \<and> (std \<noteq> 0 \<or> x = [])"
  by (auto simp: gaussian_def split: if_splits)

lemma PDFDict_init_kernel:
  assumes init: "PDFDict_init pdf_grid sgrid sigma_trunc = Inr self"
    and i: "i < length sgrid"
  shows "sigma_dict self ! i =
           map (gaussian_at (pdf_grid ! (length pdf_grid div 2)) (sgrid ! i))
             (py_slice pdf_grid (int (length pdf_grid) div 2 - sigma_width self ! i)
                (int (length pdf_grid) div 2 + sigma_width self ! i + 1))"
    and "length (sigma_dict self) = length sgrid"
    and "length (sigma_width self) = length sgrid"
    and "length (sigma_dict_cdf self) = length sgrid"
proof -
  note f = PDFDict_init_fields [OF init]
  have lw: "length (sigma_width self) = length sgrid"
    by (simp add: f(10))
  let ?ms = "map (\<lambda>(s, w). make_kernel pdf_grid (int (length pdf_grid) div 2) s w)
           (zip sgrid (sigma_width self))"
  have len: "length (sigma_dict self) = length ?ms"
    by (rule all_ok_length [OF f(11)])
  then show ld: "length (sigma_dict self) = length sgrid"
    using lw by simp
  show "length (sigma_width self) = length sgrid" by (rule lw)
  show "length (sigma_dict_cdf self) = length sgrid"
    using ld by (simp add: f(12))
  have "?ms ! i = Inr (sigma_dict self ! i)"
    using all_ok_nth [OF f(11), of i] i lw by simp
  then have mk: "make_kernel pdf_grid (int (length pdf_grid) div 2) (sgrid ! i) (sigma_width self ! i)
      = Inr (sigma_dict self ! i)"
    using i lw by simp
  have mid: "py_get pdf_grid (int (length pdf_grid) div 2) = Inr (pdf_grid ! (length pdf_grid div 2))"
    using f(1) by (auto simp: py_get_def Let_def nat_div_distrib)
  from mk show "sigma_dict self ! i =
           map (gaussian_at (pdf_grid ! (length pdf_grid div 2)) (sgrid ! i))
             (py_slice pdf_grid (int (length pdf_grid) div 2 - sigma_width self ! i)
                (int (length pdf_grid) div 2 + sigma_width self ! i + 1))"
    using gaussian_eq_Inr by (simp add: make_kernel_def mid)
qed

lemma PDFDict_init_succeeds:
  assumes g: "2 \<le> length pdf_grid" and s: "2 \<le> length sgrid"
    and d: "pdf_grid ! 1 \<noteq> pdf_grid ! 0"
    and nz: "0 \<notin> set sgrid"
  shows "\<exists>self. PDFDict_init pdf_grid sgrid sigma_trunc = Inr self"
proof -
  let ?n = "int (length pdf_grid)"
  let ?w = "map (kernel_width sigma_trunc (pdf_grid ! 1 - pdf_grid ! 0)) sgrid"
  have mid: "py_get pdf_grid (?n div 2) = Inr (pdf_grid ! (length pdf_grid div 2))"
    using g by (auto simp: py_get_def Let_def nat_div_distrib)
  have k: "(\<lambda>(sg, w). make_kernel pdf_grid (?n div 2) sg w) p =
        Inr ((\<lambda>(sg, w). map (gaussian_at (pdf_grid ! (length pdf_grid div 2)) sg)
                (py_slice pdf_grid (?n div 2 - w) (?n div 2 + w + 1))) p)"
    if "p \<in> set (zip sgrid ?w)" for p
  proof -
    obtain sg w where p: "p = (sg, w)" by (cases p)
    then have "sg \<in> set sgrid" using that by (auto dest: set_zip_leftD)
    then have "sg \<noteq> 0" using nz by auto
    then show ?thesis by (simp add: p make_kernel_def mid gaussian_def)
  qed
  have all: "all_ok (map (\<lambda>(sg, w). make_kernel pdf_grid (?n div 2) sg w) (zip sgrid ?w))
      = Inr (map (\<lambda>(sg, w). map (gaussian_at (pdf_grid ! (length pdf_grid div 2)) sg)
                (py_slice pdf_grid (?n div 2 - w) (?n div 2 + w + 1))) (zip sgrid ?w))"
    by (rule all_ok_map_Inr) (rule k)
  have g1: "py_get pdf_grid 1 = Inr (pdf_grid ! 1)" and g0: "py_get pdf_grid 0 = Inr (pdf_grid ! 0)"
    using g by (auto simp: py_get_def)
  have s1: "py_get sgrid 1 = Inr (sgrid ! 1)" and s0: "py_get sgrid 0 = Inr (sgrid ! 0)"
    using s by (auto simp: py_get_def)
  have ne: "pdf_grid \<noteq> []" using g by auto
  show ?thesis
    using d ne all by (simp add: PDFDict_init_def g1 g0 s1 s0 Let_def)
qed

lemma length_cumsum_from [simp]: "length (cumsum_from a xs) = length xs"
  by (induction xs arbitrary: a) simp_all

lemma length_cumsum [simp]: "length (cumsum xs) = length xs"
  by (simp add: cumsum_def)

lemma cumsum_from_nth:
  "k < length xs \<Longrightarrow> cumsum_from a xs ! k = a + sum_list (take (Suc k) xs)"
proof (induction xs arbitrary: a k)
  case Nil
  then show ?case by simp
next
  case (Cons x xs)
  then show ?case by (cases k) simp_all
qed

lemma cumsum_nth: "k < length xs \<Longrightarrow> cumsum xs ! k = sum_list (take (Suc k) xs)"
  by (simp add: cumsum_def cumsum_from_nth)

lemma sum_list_take_diff:
  fixes xs :: "real list"
  assumes "a \<le> b"
  shows "sum_list (take b xs) - sum_list (take a xs) = sum_list (take (b - a) (drop a xs))"
proof -
  have "take b xs = take a xs @ take (b - a) (drop a xs)"
    using assms by (metis le_add_diff_inverse take_add)
  then have "sum_list (take b xs) = sum_list (take a xs) + sum_list (take (b - a) (drop a xs))"
    by (metis sum_list_append)
  then show ?thesis by simp
qed

lemma sum_list_pos_nonempty:
  fixes xs :: "real list"
  shows "list_all (\<lambda>k. 0 < k) xs \<Longrightarrow> xs \<noteq> [] \<Longrightarrow> 0 < sum_list xs"
proof (induction xs)
  case Nil
  then show ?case by simp
next
  case (Cons x xs)
  then show ?case by (cases xs) (simp_all add: add_pos_pos)
qed

lemma list_all_take_drop:
  "list_all P xs \<Longrightarrow> list_all P (take n (drop a xs))"
  by (auto simp: list_all_iff dest: in_set_takeD in_set_dropD)

lemma sum_list_map2_add:
  fixes xs ys :: "real list"
  shows "length xs = length ys \<Longrightarrow> sum_list (map2 (+) xs ys) = sum_list xs + sum_list ys"
proof (induction xs arbitrary: ys)
  case Nil
  then show ?case by simp
next
  case (Cons x xs)
  then show ?case by (cases ys) simp_all
qed

lemma length_add_at:
  "s + length vals \<le> length pdf \<Longrightarrow> length (add_at pdf s vals) = length pdf"
  by (simp add: add_at_def)

lemma sum_list_add_at:
  assumes "s + length vals \<le> length pdf"
  shows "sum_list (add_at pdf s vals) = sum_list pdf + sum_list vals"
proof -
  let ?m = "length vals"
  have split: "pdf = take s pdf @ take ?m (drop s pdf) @ drop (s + ?m) pdf"
    by (metis append_take_drop_id drop_drop add.commute)
  have len: "length (take ?m (drop s pdf)) = length vals"
    using assms by simp
  have "sum_list pdf = sum_list (take s pdf) + sum_list (take ?m (drop s pdf))
      + sum_list (drop (s + ?m) pdf)"
    by (subst split) (simp only: sum_list_append add.assoc)
  then show ?thesis
    by (simp add: add_at_def sum_list_map2_add [OF len])
qed

lemma add_at_Nil [simp]: "add_at pdf s [] = pdf"
  by (simp add: add_at_def)

lemma kde_norm_cumsum:
  assumes len: "int (length kern) = 2 * w + 1" and lp: "0 \<le> lpad" and hp: "hpad \<le> 0"
  shows "kde_norm (cumsum kern) lpad hpad =
           (if hpad < - 2 * w \<or> 2 * w + 1 < lpad then Inl IndexError
            else Inr (sum_list (take (nat (2 * w + 1 + hpad)) kern)
                      - sum_list (take (nat lpad) kern)))"
proof -
  have hi: "py_get (cumsum kern) (hpad - 1) =
      (if hpad < - 2 * w then Inl IndexError
       else Inr (sum_list (take (nat (2 * w + 1 + hpad)) kern)))"
  proof (cases "hpad < - 2 * w")
    case True
    then show ?thesis using len hp by (simp add: py_get_def Let_def)
  next
    case False
    then have k: "nat (2 * w + hpad) < length kern" using len hp by linarith
    have "Suc (nat (2 * w + hpad)) = nat (2 * w + 1 + hpad)" using False by linarith
    then have "cumsum kern ! nat (2 * w + hpad) = sum_list (take (nat (2 * w + 1 + hpad)) kern)"
      using cumsum_nth [OF k] by simp
    moreover have "int (length kern) + (hpad - 1) = 2 * w + hpad" using len by simp
    ultimately show ?thesis using False len hp by (simp add: py_get_def Let_def)
  qed
  have lo: "py_get (cumsum kern) (lpad - 1) =
      (if 2 * w + 1 < lpad then Inl IndexError
       else Inr (sum_list (take (nat lpad) kern)))" if "lpad \<noteq> 0"
  proof (cases "2 * w + 1 < lpad")
    case True
    then show ?thesis using len lp that by (simp add: py_get_def Let_def)
  next
    case False
    then have k: "nat (lpad - 1) < length kern" using len lp that by linarith
    have "Suc (nat (lpad - 1)) = nat lpad" using lp that by linarith
    then have "cumsum kern ! nat (lpad - 1) = sum_list (take (nat lpad) kern)"
      using cumsum_nth [OF k] by simp
    then show ?thesis using False len lp that by (simp add: py_get_def Let_def)
  qed
  show ?thesis
  proof (cases "lpad = 0")
    case True
    then show ?thesis using len by (simp add: kde_norm_def hi)
  next
    case False
    then show ?thesis by (simp add: kde_norm_def hi lo [OF False])
  qed
qed

lemma sum_list_scale:
  fixes xs :: "real list"
  shows "sum_list (map (\<lambda>k. c * k) xs) = c * sum_list xs"
  by (induction xs) (simp_all add: distrib_left)

lemma take_drop_nonempty:
  "a < b \<Longrightarrow> b \<le> length xs \<Longrightarrow> take (b - a) (drop a xs) \<noteq> []"
  by simp

lemma length_take_drop:
  "b \<le> length xs \<Longrightarrow> length (take (b - a) (drop a xs)) = b - a"
  by simp

lemma py_slice_nonneg:
  assumes "0 \<le> a" and "0 \<le> b" and "b \<le> int (length xs)"
  shows "py_slice xs a b = take (nat b - nat a) (drop (nat a) xs)"
proof -
  have "slice_bound (length xs) b = nat b" using assms by (simp add: slice_bound_def)
  moreover have "slice_bound (length xs) a = min (nat a) (length xs)"
    using assms by (simp add: slice_bound_def)
  ultimately show ?thesis
    by (cases "nat a \<le> length xs") (simp_all add: py_slice_def Let_def min_def)
qed

lemma stack_kernel_entry:
  assumes "entry_ok pdfdict i" and "w = sigma_width pdfdict ! i"
    and "low = max (pos - w) 0" and "high = min (pos + w + 1) (Ngrid pdfdict)"
    and "lpad = low - (pos - w)" and "hpad = high - (pos + w + 1)"
  shows "stack_kernel pdfdict pdf pos (int i) wt =
     and_then (kde_norm (cumsum (sigma_dict pdfdict ! i)) lpad hpad) (\<lambda>norm.
       and_then (scale_array (np_divide wt norm)
                   (py_slice (sigma_dict pdfdict ! i) lpad (2 * w + 1 + hpad))) (\<lambda>vals.
         slice_iadd pdf low high vals))"
  using assms by (simp add: stack_kernel_def entry_ok_def py_get_nat Let_def)

lemma PDFDict_init_entry_ok:
  assumes init: "PDFDict_init pdf_grid sgrid sigma_trunc = Inr self"
    and i: "i < length sgrid" and sg: "0 < sgrid ! i"
    and w: "w = sigma_width self ! i" and w0: "0 \<le> w"
    and lo: "0 \<le> int (length pdf_grid) div 2 - w"
    and hi: "int (length pdf_grid) div 2 + w + 1 \<le> int (length pdf_grid)"
  shows "entry_ok self i"
proof -
  note f = PDFDict_init_fields [OF init]
  note k = PDFDict_init_kernel [OF init i]
  let ?mid = "int (length pdf_grid) div 2"
  have sl: "py_slice pdf_grid (?mid - w) (?mid + w + 1)
      = take (nat (?mid + w + 1) - nat (?mid - w)) (drop (nat (?mid - w)) pdf_grid)"
    using lo hi w0 by (intro py_slice_nonneg) linarith+
  have le: "nat (?mid + w + 1) \<le> length pdf_grid"
    using hi lo w0 by linarith
  have "length (sigma_dict self ! i) = nat (?mid + w + 1) - nat (?mid - w)"
    by (simp only: k(1) w [symmetric] sl length_map length_take_drop [OF le])
  then have len: "int (length (sigma_dict self ! i)) = 2 * w + 1"
    using lo w0 by linarith
  have pos: "list_all (\<lambda>k. 0 < k) (sigma_dict self ! i)"
    using sg by (simp add: k(1) list_all_iff gaussian_at_pos)
  have cdf: "sigma_dict_cdf self ! i = cumsum (sigma_dict self ! i)"
    using i k(2) by (simp add: f(12))
  show ?thesis
    using i len pos cdf by (simp add: entry_ok_def k(2,3,4) w)
qed

lemma stack_kernel_off_grid:
  assumes ok: "entry_ok pdfdict i"
    and w: "w = sigma_width pdfdict ! i"
    and nx: "0 \<le> Ngrid pdfdict"
    and off: "pos + w + 1 < 0 \<or> Ngrid pdfdict \<le> pos - w"
  shows "stack_kernel pdfdict pdf pos (int i) wt = Inl IndexError"
proof -
  let ?k = "sigma_dict pdfdict ! i"
  define low where "low = max (pos - w) 0"
  define high where "high = min (pos + w + 1) (Ngrid pdfdict)"
  define lpad where "lpad = low - (pos - w)"
  define hpad where "hpad = high - (pos + w + 1)"
  have len: "int (length ?k) = 2 * w + 1"
    using ok by (simp add: entry_ok_def w)
  have w0: "0 \<le> w" using len by linarith
  have lp: "0 \<le> lpad" and hp: "hpad \<le> 0"
    unfolding lpad_def hpad_def low_def high_def by simp_all
  have "hpad < - 2 * w \<or> 2 * w + 1 < lpad"
    using off nx w0 unfolding lpad_def hpad_def low_def high_def by auto
  then have "kde_norm (cumsum ?k) lpad hpad = Inl IndexError"
    by (simp add: kde_norm_cumsum [OF len lp hp])
  then show ?thesis
    by (simp only: stack_kernel_entry [OF ok w low_def high_def lpad_def hpad_def] and_then_Inl)
qed

lemma scenario_dict_exists:
  "\<exists>d. PDFDict_init scenario_grid scenario_sigmas 5 = Inr d"
  by (rule PDFDict_init_succeeds) (simp_all add: scenario_grid_def scenario_sigmas_def)

lemma scenario_dict_facts:
  assumes init: "PDFDict_init scenario_grid scenario_sigmas 5 = Inr d"
  shows "Ngrid d = 11" and "sigma_width d = [3, 5, 8]"
    and "entry_ok d 0" and "entry_ok d 1"
proof -
  note f = PDFDict_init_fields [OF init]
  show n: "Ngrid d = 11" by (simp add: f(4) scenario_grid_def)
  show w: "sigma_width d = [3, 5, 8]"
    by (simp add: f(10) scenario_grid_def scenario_sigmas_def kernel_width_def)
  show "entry_ok d 0"
    by (rule PDFDict_init_entry_ok [OF init, where w = 3])
      (simp_all add: w scenario_grid_def scenario_sigmas_def)
  show "entry_ok d 1"
    by (rule PDFDict_init_entry_ok [OF init, where w = 5])
      (simp_all add: w scenario_grid_def scenario_sigmas_def)
qed

text \<open>
  The direct path skips an observation whose slice of the grid is empty: the sum of no
  kernel values is zero and the guard \<^verbatim>\<open>if norm != 0.\<close> of line 422 leaves the array as
  it is.
\<close>

lemma kde_step_empty_slice:
  "py_slice x lower upper = [] \<Longrightarrow> kde_step x pdf yv ys wt lower upper = Inr pdf"
  by (simp add: kde_step_def gaussian_def)

lemma last_cumsum_from:
  "xs \<noteq> [] \<Longrightarrow> last (cumsum_from a xs) = a + sum_list xs"
proof (induction xs arbitrary: a)
  case Nil
  then show ?case by simp
next
  case (Cons x xs)
  then show ?case by (cases xs) simp_all
qed

lemma last_cumsum: "xs \<noteq> [] \<Longrightarrow> last (cumsum xs) = sum_list xs"
  by (simp add: cumsum_def last_cumsum_from)

lemma argsort_props:
  shows "distinct (argsort y_wt)" and "set (argsort y_wt) = {0..<length y_wt}"
    and "length (argsort y_wt) = length y_wt"
    and "sorted (map (\<lambda>j. y_wt ! j) (argsort y_wt))"
  by (simp_all add: argsort_def)

lemma last_not_kept:
  assumes d: "distinct xs" and l: "length ys = length xs" and ne: "xs \<noteq> []"
    and np: "\<not> P (last xs, last ys)"
  shows "last xs \<notin> set (map fst (filter P (zip xs ys)))"
proof
  assume "last xs \<in> set (map fst (filter P (zip xs ys)))"
  then obtain y where in_zip: "(last xs, y) \<in> set (zip xs ys)" and p: "P (last xs, y)"
    by auto
  from in_zip obtain i where i: "i < length xs" "xs ! i = last xs" "ys ! i = y"
    using l by (auto simp: set_zip)
  have n1: "length xs - 1 < length xs" using ne by simp
  have "xs ! i = xs ! (length xs - 1)" using ne i(2) by (simp add: last_conv_nth)
  then have "i = length xs - 1"
    using nth_eq_iff_index_eq [OF d i(1) n1] by simp
  moreover have "ys \<noteq> []" using l ne by auto
  ultimately have "y = last ys" using i(3) l by (simp add: last_conv_nth)
  with p np show False by simp
qed

lemma sorted_last_Max:
  fixes zs :: "real list"
  assumes "sorted zs" and "zs \<noteq> []"
  shows "last zs = Max (set zs)"
proof -
  have le: "z \<le> last zs" if zin: "z \<in> set zs" for z
  proof -
    obtain i where i: "i < length zs" "zs ! i = z"
      using zin by (auto simp: in_set_conv_nth)
    have "zs ! i \<le> zs ! (length zs - 1)"
      using assms i(1) by (intro sorted_nth_mono) simp_all
    then show ?thesis using i(2) assms(2) by (simp add: last_conv_nth)
  qed
  have "last zs \<in> set zs" using assms(2) by simp
  then have "Max (set zs) = last zs"
    using le by (intro Max_eqI) simp_all
  then show ?thesis by simp
qed

text \<open>
  The selection by cumulative weight always leaves out an observation of maximal weight:
  the last entry of the normalised cumulative sums is \<open>1\<close>, which is above
  \<open>1 - cdf_thresh\<close> for every positive \<open>cdf_thresh\<close>.
\<close>

lemma select_cdf_drops_maximum:
  assumes ne: "y_wt \<noteq> []" and pos: "list_all (\<lambda>w. 0 < w) y_wt" and c: "0 < cdf_thresh"
  shows "\<exists>sel m. sel_arr y_wt None (Some cdf_thresh) = Inr sel \<and> m < length y_wt \<and>
           y_wt ! m = Max (set y_wt) \<and> m \<notin> set sel"
proof -
  let ?idx = "argsort y_wt"
  let ?srt = "map (\<lambda>j. y_wt ! j) ?idx"
  let ?cdf = "cumsum ?srt"
  let ?P = "\<lambda>(j :: nat, c). cdf_keep (last ?cdf) cdf_thresh c"
  let ?sel = "map fst (filter ?P (zip ?idx ?cdf))"
  let ?m = "last ?idx"
  have idx_ne: "?idx \<noteq> []" using ne argsort_props(3) [of y_wt] by auto
  then have srt_ne: "?srt \<noteq> []" by simp
  then have cdf_ne: "?cdf \<noteq> []" by (metis length_cumsum length_0_conv)
  have m_in: "?m \<in> set ?idx" using idx_ne by simp
  then have m_lt: "?m < length y_wt" by (simp add: argsort_props(2))
  have "(\<lambda>j. y_wt ! j) ` {0..<length y_wt} = set (map (\<lambda>j. y_wt ! j) [0..<length y_wt])"
    by simp
  also have "\<dots> = set y_wt" by (simp only: map_nth)
  finally have "set ?srt = set y_wt"
    by (simp add: argsort_props(2))
  moreover have "last ?srt = y_wt ! ?m" using idx_ne by (simp add: last_map)
  ultimately have m_max: "y_wt ! ?m = Max (set y_wt)"
    using sorted_last_Max [OF argsort_props(4) srt_ne] by simp
  have "list_all (\<lambda>w. 0 < w) ?srt"
    using pos by (auto simp: list_all_iff argsort_props(2))
  then have tot: "0 < last ?cdf"
    using srt_ne by (simp add: last_cumsum sum_list_pos_nonempty)
  then have "\<not> ?P (?m, last ?cdf)"
    using c by (simp add: cdf_keep_def)
  then have "?m \<notin> set ?sel"
    using last_not_kept [of ?idx ?cdf ?P] idx_ne by (simp add: argsort_props(1))
  moreover have "sel_arr y_wt None (Some cdf_thresh) = Inr ?sel"
    using cdf_ne by (simp add: sel_arr_def select_cdf_def Let_def)
  ultimately show ?thesis using m_lt m_max by blast
qed

subsection \<open>Selection by relative amplitude\<close>

text \<open>
  C7. With \<^verbatim>\<open>wt_thresh\<close> given, the selected indices are exactly the \<open>j\<close> with
  \<open>y_wt[j] > wt_thresh * max(y_wt)\<close>, each once; for the weights \<open>[1, 1, 1000]\<close> and
  \<open>wt_thresh = 0.5\<close> only the last observation is selected. (On an empty batch
  \<^verbatim>\<open>np.max\<close> raises, hence the hypothesis.)
\<close>

theorem wt_thresh_selection:
  "y_wt \<noteq> [] \<Longrightarrow>
     (\<exists>sel. sel_arr y_wt (Some wt_thresh) cdf_thresh = Inr sel \<and> distinct sel \<and>
        set sel = {j. j < length y_wt \<and> wt_thresh * Max (set y_wt) < y_wt ! j}) \<and>
     sel_arr [1, 1, 1000] (Some (1 / 2)) cdf_thresh = Inr [2]"
proof (intro conjI)
  assume "y_wt \<noteq> []"
  then show "\<exists>sel. sel_arr y_wt (Some wt_thresh) cdf_thresh = Inr sel \<and> distinct sel \<and>
        set sel = {j. j < length y_wt \<and> wt_thresh * Max (set y_wt) < y_wt ! j}"
    by (auto simp: sel_arr_def select_wt_def)
next
  show "sel_arr [1, 1, 1000] (Some (1 / 2)) cdf_thresh = Inr [2]"
    by (simp add: sel_arr_def select_wt_def upt_rec)
qed

theorem wt_thresh_selection_witness:
  "[1, 1, 1000 :: real] \<noteq> [] \<and>
   ((\<exists>sel. sel_arr [1, 1, 1000] (Some (1 / 2)) None = Inr sel \<and> distinct sel \<and>
        set sel = {j. j < length [1, 1, 1000 :: real]
                      \<and> (1 / 2) * Max (set [1, 1, 1000 :: real]) < [1, 1, 1000] ! j}) \<and>
     sel_arr [1, 1, 1000] (Some (1 / 2)) None = Inr [2])"
proof -
  have h: "[1, 1, 1000 :: real] \<noteq> []" by simp
  show ?thesis by (rule conjI [OF h wt_thresh_selection [OF h]])
qed

text \<open>
  C10. For a non-empty weight vector with a strictly positive maximum and a threshold
  \<open>0 < wt_thresh < 1\<close>, the selection (the one step shared by \<^verbatim>\<open>gauss_kde_dict\<close> and
  \<^verbatim>\<open>gauss_kde\<close>) is not empty and holds every index whose weight is the maximum.
\<close>

theorem wt_thresh_keeps_maximum:
  assumes "y_wt \<noteq> []" and "0 < Max (set y_wt)" and "0 < wt_thresh" and "wt_thresh < 1"
  shows "\<exists>sel. sel_arr y_wt (Some wt_thresh) cdf_thresh = Inr sel \<and> sel \<noteq> [] \<and>
           (\<forall>j < length y_wt. y_wt ! j = Max (set y_wt) \<longrightarrow> j \<in> set sel)"
proof -
  let ?m = "Max (set y_wt)"
  let ?sel = "filter (\<lambda>j. y_wt ! j > wt_thresh * ?m) [0..<length y_wt]"
  have below: "wt_thresh * ?m < ?m"
    using assms by simp
  have "?m \<in> set y_wt"
    using assms(1) by (simp add: Max_in)
  then obtain k where k: "k < length y_wt" "y_wt ! k = ?m"
    by (auto simp: in_set_conv_nth)
  have run: "sel_arr y_wt (Some wt_thresh) cdf_thresh = Inr ?sel"
    using assms(1) by (simp add: sel_arr_def select_wt_def)
  have all_max: "\<forall>j < length y_wt. y_wt ! j = ?m \<longrightarrow> j \<in> set ?sel"
    using below by simp
  with k have "k \<in> set ?sel"
    by blast
  then have "?sel \<noteq> []"
    by (rule_tac notI) (simp only: list.set empty_iff)
  with run all_max show ?thesis
    by blast
qed

theorem wt_thresh_keeps_maximum_witness:
  "[3, 7, 7 :: real] \<noteq> [] \<and> 0 < Max (set [3, 7, 7 :: real]) \<and> (0 :: real) < 1 / 2
   \<and> (1 :: real) / 2 < 1 \<and>
   (\<exists>sel. sel_arr [3, 7, 7] (Some (1 / 2)) None = Inr sel \<and> sel \<noteq> [] \<and>
      (\<forall>j < length [3, 7, 7 :: real].
         [3, 7, 7] ! j = Max (set [3, 7, 7 :: real]) \<longrightarrow> j \<in> set sel))"
proof -
  have h1: "[3, 7, 7 :: real] \<noteq> []" by simp
  have h2: "0 < Max (set [3, 7, 7 :: real])" by simp
  have h3: "(0 :: real) < 1 / 2" by simp
  have h4: "(1 :: real) / 2 < 1" by simp
  show ?thesis
    by (intro conjI h1 h2 h3 h4 wt_thresh_keeps_maximum [OF h1 h2 h3 h4])
qed

subsection \<open>Selection by cumulative weight\<close>

text \<open>
  C5. On the weights \<open>[1, 1, 1000]\<close> with \<^verbatim>\<open>wt_thresh=None\<close> and the default
  \<^verbatim>\<open>cdf_thresh = 2e-4\<close>, the sorted cumulative weights are \<open>1/1002, 2/1002, 1\<close>; the
  entries not above \<open>1 - 2e-4\<close> are the first two, so the selection is \<open>[0, 1]\<close>: the
  dominant observation (index 2) is the one left out.
\<close>

theorem cdf_selection_drops_dominant:
  "sel_arr [1, 1, 1000] None (Some (2 / 10000)) = Inr [0, 1]"
  by (simp add: sel_arr_def select_cdf_def argsort_def cumsum_def cdf_keep_def upt_rec)

subsection \<open>Precedence of the pre-quantised indices\<close>

text \<open>
  C9. When \<^verbatim>\<open>y_idx\<close> and \<^verbatim>\<open>y_std_idx\<close> are both given, the outcome of
  \<^verbatim>\<open>gauss_kde_dict\<close> is the same whatever is passed as \<^verbatim>\<open>y\<close> and \<^verbatim>\<open>y_std\<close>, and
  the same as with both omitted.
\<close>

theorem indices_take_precedence:
  "gauss_kde_dict pdfdict y y_std (Some y_idx) (Some y_std_idx) y_wt wt_thresh cdf_thresh =
   gauss_kde_dict pdfdict None None (Some y_idx) (Some y_std_idx) y_wt wt_thresh cdf_thresh"
  by (simp add: gauss_kde_dict_def kde_inputs_def)

subsection \<open>Quantisation round trip\<close>

text \<open>
  C6. On a dictionary built by \<^verbatim>\<open>PDFDict\<close> from an evenly spaced grid and an evenly
  spaced sigma grid (each point is the first one plus a multiple of the first spacing, the
  spacing not zero), \<^verbatim>\<open>fit\<close> maps the grid point \<open>grid[j]\<close> to the index \<open>j\<close> and the
  sigma \<open>sigma_grid[k]\<close> to the index \<open>k\<close>, for any batch of such values.
\<close>

theorem fit_round_trip:
  assumes init: "PDFDict_init pdf_grid sgrid sigma_trunc = Inr self"
    and unif_g: "\<forall>j < length pdf_grid. pdf_grid ! j = pdf_grid ! 0 + real j * (pdf_grid ! 1 - pdf_grid ! 0)"
    and unif_s: "\<forall>k < length sgrid. sgrid ! k = sgrid ! 0 + real k * (sgrid ! 1 - sgrid ! 0)"
    and ds: "sgrid ! 1 \<noteq> sgrid ! 0"
    and js: "\<forall>j \<in> set js. j < length pdf_grid"
    and ks: "\<forall>k \<in> set ks. k < length sgrid"
  shows "fit self (map (\<lambda>j. pdf_grid ! j) js) (map (\<lambda>k. sgrid ! k) ks)
           = Inr (map int js, map int ks)"
proof -
  note f = PDFDict_init_fields [OF init]
  have g0: "py_get (grid self) 0 = Inr (pdf_grid ! 0)"
    using f(1) by (auto simp: f(5) py_get_def)
  have s0: "py_get (sigma_grid self) 0 = Inr (sgrid ! 0)"
    using f(2) by (auto simp: f(8) py_get_def)
  have mean: "mean_index (pdf_grid ! 0) (delta self) (pdf_grid ! j) = Inr (int j)"
    if "j \<in> set js" for j
  proof -
    have "j < length pdf_grid" using js that by blast
    then have "pdf_grid ! j - pdf_grid ! 0 = real j * (pdf_grid ! 1 - pdf_grid ! 0)"
      using unif_g by simp
    then show ?thesis
      using f(3) by (simp add: mean_index_def f(6))
  qed
  have sig: "sigma_index (sgrid ! 0) (dsigma self) (Ndict self) (sgrid ! k) = Inr (int k)"
    if "k \<in> set ks" for k
  proof -
    have k: "k < length sgrid" using ks that by blast
    then have "sgrid ! k - sgrid ! 0 = real k * (sgrid ! 1 - sgrid ! 0)"
      using unif_s by simp
    then show ?thesis
      using ds k by (simp add: sigma_index_def f(7) f(9) Let_def)
  qed
  have X: "all_ok (map (\<lambda>j. mean_index (pdf_grid ! 0) (delta self) (pdf_grid ! j)) js)
             = Inr (map int js)"
    by (rule all_ok_map_Inr) (rule mean)
  have Xe: "all_ok (map (\<lambda>k. sigma_index (sgrid ! 0) (dsigma self) (Ndict self) (sgrid ! k)) ks)
             = Inr (map int ks)"
    by (rule all_ok_map_Inr) (rule sig)
  show ?thesis
    by (simp add: fit_def g0 s0 comp_def X Xe)
qed

theorem fit_round_trip_witness:
  "\<exists>self. PDFDict_init [0, 1, 2, 3, 4] [1 / 4, 1 / 2] 1 = Inr self \<and>
     (\<forall>j < length [0, 1, 2, 3, 4 :: real].
        [0, 1, 2, 3, 4 :: real] ! j = [0, 1, 2, 3, 4] ! 0 + real j * ([0, 1, 2, 3, 4] ! 1 - [0, 1, 2, 3, 4] ! 0)) \<and>
     (\<forall>k < length [1 / 4, 1 / 2 :: real].
        [1 / 4, 1 / 2 :: real] ! k = [1 / 4, 1 / 2] ! 0 + real k * ([1 / 4, 1 / 2] ! 1 - [1 / 4, 1 / 2] ! 0)) \<and>
     [1 / 4, 1 / 2 :: real] ! 1 \<noteq> [1 / 4, 1 / 2] ! 0 \<and>
     (\<forall>j \<in> set [3, 0]. j < length [0, 1, 2, 3, 4 :: real]) \<and>
     (\<forall>k \<in> set [1]. k < length [1 / 4, 1 / 2 :: real]) \<and>
     fit self (map (\<lambda>j. [0, 1, 2, 3, 4] ! j) [3, 0]) (map (\<lambda>k. [1 / 4, 1 / 2] ! k) [1])
       = Inr (map int [3, 0], map int [1])"
proof -
  obtain self where init: "PDFDict_init [0, 1, 2, 3, 4] [1 / 4, 1 / 2] 1 = Inr self"
    using PDFDict_init_example by blast
  have g: "\<forall>j < length [0, 1, 2, 3, 4 :: real].
        [0, 1, 2, 3, 4 :: real] ! j = [0, 1, 2, 3, 4] ! 0 + real j * ([0, 1, 2, 3, 4] ! 1 - [0, 1, 2, 3, 4] ! 0)"
    by (simp add: nth_Cons' less_Suc_eq numeral_eq_Suc all_conj_distrib)
  have s: "\<forall>k < length [1 / 4, 1 / 2 :: real].
        [1 / 4, 1 / 2 :: real] ! k = [1 / 4, 1 / 2] ! 0 + real k * ([1 / 4, 1 / 2] ! 1 - [1 / 4, 1 / 2] ! 0)"
    by (simp add: nth_Cons' less_Suc_eq numeral_eq_Suc all_conj_distrib)
  have ds: "[1 / 4, 1 / 2 :: real] ! 1 \<noteq> [1 / 4, 1 / 2] ! 0"
    by simp
  have js: "\<forall>j \<in> set [3, 0]. j < length [0, 1, 2, 3, 4 :: real]"
    by simp
  have ks: "\<forall>k \<in> set [1]. k < length [1 / 4, 1 / 2 :: real]"
    by simp
  show ?thesis
    by (intro exI [of _ self] conjI init g s ds js ks fit_round_trip [OF init g s ds js ks])
qed

subsection \<open>The window of the direct path\<close>

text \<open>
  C8, as stated, fails. With \<open>sig_thresh = 5\<close>, \<open>sigma = 0.35\<close> and \<open>dx = 1\<close> the offset
  \<open>1.75\<close> is converted to the integer \<open>1\<close> (the conversion truncates), where rounding gives
  \<open>2\<close>: for an observation at \<open>5\<close> on the grid \<open>0..10\<close> the source's window is \<open>[4, 6)\<close>,
  the window of the claim is \<open>[3, 7)\<close>.
\<close>

theorem kde_window_not_rounded:
  "kde_bounds 0 1 5 11 [5] [35 / 100] = [(4, 6)] \<and>
   spec_kde_window 0 1 5 11 5 (35 / 100) = (3, 7) \<and>
   kde_bounds 0 1 5 11 [5] [35 / 100] \<noteq> [spec_kde_window 0 1 5 11 5 (35 / 100)]"
  by (simp add: kde_bounds_def center_of_def offset_of_def float_to_int_def lower_of_def
      upper_of_def spec_kde_window_def np_round_def Let_def)

text \<open>
  C8, amended. For an observation whose window \<open>[c - h, c + h]\<close> reaches the grid
  (\<open>0 \<le> c + h\<close> and \<open>c - h \<le> Nx\<close>), with \<open>c\<close> the truncated center and \<open>h\<close> the
  half-width \<open>sig_thresh * sigma / dx\<close> truncated to an integer (its floor, the quotient
  being non-negative), the bounds used by \<^verbatim>\<open>gauss_kde\<close> are \<open>max(c - h, 0)\<close> and
  \<open>min(c + h, Nx)\<close>, both in \<open>[0, Nx]\<close>.
\<close>

theorem kde_window_bounds:
  assumes "length y_std = length y" and "i < length y"
    and "0 \<le> sig_thresh * (y_std ! i) / dx"
    and "c = center_of x0 dx (y ! i)" and "h = \<lfloor>sig_thresh * (y_std ! i) / dx\<rfloor>"
    and "0 \<le> c + h" and "c - h \<le> int (length x)"
  shows "kde_bounds x0 dx sig_thresh (int (length x)) y y_std ! i
           = (max (c - h) 0, min (c + h) (int (length x))) \<and>
         0 \<le> max (c - h) 0 \<and> max (c - h) 0 \<le> int (length x) \<and>
         0 \<le> min (c + h) (int (length x)) \<and> min (c + h) (int (length x)) \<le> int (length x)"
  using assms
  by (auto simp: kde_bounds_def Let_def offset_of_def float_to_int_def lower_of_def upper_of_def)

theorem kde_window_bounds_witness:
  "length [35 / 100 :: real] = length [5 :: real] \<and> (0 :: nat) < length [5 :: real] \<and>
   (0 :: real) \<le> 5 * ([35 / 100] ! 0) / 1 \<and>
   (5 :: int) = center_of 0 1 ([5] ! 0) \<and> (1 :: int) = \<lfloor>5 * ([35 / 100 :: real] ! 0) / 1\<rfloor> \<and>
   (0 :: int) \<le> 5 + 1 \<and> (5 :: int) - 1 \<le> int (length [0, 1, 2, 3, 4, 5, 6, 7, 8, 9, 10 :: real]) \<and>
   (kde_bounds 0 1 5 (int (length [0, 1, 2, 3, 4, 5, 6, 7, 8, 9, 10 :: real])) [5] [35 / 100] ! 0
           = (max (5 - 1) 0, min (5 + 1) (int (length [0, 1, 2, 3, 4, 5, 6, 7, 8, 9, 10 :: real]))) \<and>
         0 \<le> max (5 - 1) (0 :: int) \<and> max (5 - 1) 0 \<le> int (length [0, 1, 2, 3, 4, 5, 6, 7, 8, 9, 10 :: real]) \<and>
         0 \<le> min (5 + 1) (int (length [0, 1, 2, 3, 4, 5, 6, 7, 8, 9, 10 :: real])) \<and>
         min (5 + 1) (int (length [0, 1, 2, 3, 4, 5, 6, 7, 8, 9, 10 :: real]))
           \<le> int (length [0, 1, 2, 3, 4, 5, 6, 7, 8, 9, 10 :: real]))"
proof -
  have h1: "length [35 / 100 :: real] = length [5 :: real]" by simp
  have h2: "(0 :: nat) < length [5 :: real]" by simp
  have h3: "(0 :: real) \<le> 5 * ([35 / 100] ! 0) / 1" by simp
  have h4: "(5 :: int) = center_of 0 1 ([5] ! 0)" by (simp add: center_of_def float_to_int_def)
  have h5: "(1 :: int) = \<lfloor>5 * ([35 / 100 :: real] ! 0) / 1\<rfloor>" by simp
  have h6: "(0 :: int) \<le> 5 + 1" by simp
  have h7: "(5 :: int) - 1 \<le> int (length [0, 1, 2, 3, 4, 5, 6, 7, 8, 9, 10 :: real])" by simp
  show ?thesis
    by (intro conjI h1 h2 h3 h4 h5 h6 h7
        kde_window_bounds [OF h1 h2 h3 h4 h5 h6 h7, THEN conjunct1]
        kde_window_bounds [OF h1 h2 h3 h4 h5 h6 h7, THEN conjunct2, THEN conjunct1]
        kde_window_bounds [OF h1 h2 h3 h4 h5 h6 h7, THEN conjunct2, THEN conjunct2, THEN conjunct1]
        kde_window_bounds [OF h1 h2 h3 h4 h5 h6 h7, THEN conjunct2, THEN conjunct2, THEN conjunct2, THEN conjunct1]
        kde_window_bounds [OF h1 h2 h3 h4 h5 h6 h7, THEN conjunct2, THEN conjunct2, THEN conjunct2, THEN conjunct2])
qed

subsection \<open>Construction on a grid too small for a kernel\<close>

text \<open>
  \<^verbatim>\<open>PDFDict.__init__\<close> has no check of the grid against the widths. On a grid of at
  least two points whose first two differ, with at least two sigmas, none zero, it returns
  a dictionary, and an entry whose slice \<open>[mid - w, mid + w]\<close> leaves the grid gets a
  kernel of fewer than \<open>2 w + 1\<close> values while its stored width stays \<open>w\<close>.
\<close>

lemma construction_never_checks_grid:
  assumes g: "2 \<le> length pdf_grid" and s: "2 \<le> length sgrid"
    and d: "pdf_grid ! 1 \<noteq> pdf_grid ! 0"
    and nz: "0 \<notin> set sgrid"
    and i: "i < length sgrid"
    and w: "w = kernel_width sigma_trunc (pdf_grid ! 1 - pdf_grid ! 0) (sgrid ! i)"
    and mid: "mid = int (length pdf_grid) div 2"
    and out: "mid - w < 0 \<or> int (length pdf_grid) < mid + w + 1"
  shows "\<exists>self. PDFDict_init pdf_grid sgrid sigma_trunc = Inr self \<and>
           sigma_width self ! i = w \<and>
           int (length (sigma_dict self ! i)) < 2 * w + 1"
proof -
  obtain self where init: "PDFDict_init pdf_grid sgrid sigma_trunc = Inr self"
    using PDFDict_init_succeeds [OF g s d nz] by blast
  note f = PDFDict_init_fields [OF init]
  have wi: "sigma_width self ! i = w"
    using i by (simp add: f(10) w)
  have "length (sigma_dict self ! i) =
      slice_bound (length pdf_grid) (mid + w + 1) - slice_bound (length pdf_grid) (mid - w)"
    by (simp add: PDFDict_init_kernel(1) [OF init i] wi mid length_py_slice)
  also have "int \<dots> < 2 * w + 1"
    using out g unfolding slice_bound_def mid by (auto split: if_splits)
  finally have "int (length (sigma_dict self ! i)) < 2 * w + 1" .
  with init wi show ?thesis by blast
qed

text \<open>
  On the five-point grid \<open>0..4\<close> with sigmas \<open>1, 2\<close> and \<open>sigma_trunc = 5\<close> the widths
  are \<open>5\<close> and \<open>10\<close>; the slices \<^verbatim>\<open>grid[-3:8]\<close> and \<^verbatim>\<open>grid[-8:13]\<close> are cut by the
  slicing rules to 3 and 5 points.
\<close>

lemma construction_truncates_silently:
  "\<exists>self. PDFDict_init [0, 1, 2, 3, 4] [1, 2] 5 = Inr self \<and>
     sigma_width self = [5, 10] \<and> map length (sigma_dict self) = [3, 5]"
  by (simp add: PDFDict_init_def py_get_def make_kernel_def gaussian_def kernel_width_def
      py_slice_def slice_bound_def Let_def)

text \<open>
  C4. The construction of the specification's own concrete scenario (grid \<open>-5..5\<close>, sigmas
  \<open>0.5, 1.0, 1.5\<close>, \<open>sigma_trunc = 5\<close>) does not fail although the third width, \<open>8\<close>,
  is too large for the grid: \<^verbatim>\<open>grid[-3:14]\<close> wraps to \<^verbatim>\<open>grid[8:11]\<close>, and the third
  kernel is the Gaussian of sigma \<open>1.5\<close> on the three points \<open>3, 4, 5\<close> (one tail only,
  without the center) under the stored width \<open>8\<close>. The entry is not well formed, and
  \<^verbatim>\<open>gauss_kde_dict\<close>, which takes a kernel of \<open>2 * width + 1\<close> values for granted, raises
  IndexError on the observation \<open>y = 0\<close>, \<open>y_std = 1.5\<close> at the middle of the grid
  (\<open>lpad = 3\<close>, \<open>hpad = -3\<close>, \<^verbatim>\<open>kcdf[-4]\<close> on three values).
\<close>

theorem scenario_construction_truncates:
  "\<exists>d. PDFDict_init scenario_grid scenario_sigmas 5 = Inr d \<and>
     sigma_width d = [3, 5, 8] \<and> map length (sigma_dict d) = [7, 11, 3] \<and>
     sigma_dict d ! 2 = map (gaussian_at 0 (3 / 2)) [3, 4, 5] \<and>
     \<not> entry_ok d 2 \<and>
     gauss_kde_dict d (Some [0]) (Some [3 / 2]) None None None (Some (1 / 1000)) (Some (2 / 10000))
       = Inl IndexError"
proof -
  obtain d where init: "PDFDict_init scenario_grid scenario_sigmas 5 = Inr d"
    using scenario_dict_exists by blast
  note f = scenario_dict_facts [OF init]
  note g = PDFDict_init_fields [OF init]
  have l3: "length (sigma_dict d) = 3" and lc: "length (sigma_dict_cdf d) = 3"
    using PDFDict_init_kernel(2,4) [OF init, of 0] by (simp_all add: scenario_sigmas_def)
  have k0: "length (sigma_dict d ! 0) = 7"
    using PDFDict_init_kernel(1) [OF init, of 0]
    by (simp add: f(2) scenario_grid_def scenario_sigmas_def py_slice_def slice_bound_def)
  have k1: "length (sigma_dict d ! 1) = 11"
    using PDFDict_init_kernel(1) [OF init, of 1]
    by (simp add: f(2) scenario_grid_def scenario_sigmas_def py_slice_def slice_bound_def)
  have k2: "sigma_dict d ! 2 = map (gaussian_at 0 (3 / 2)) [3, 4, 5]"
    using PDFDict_init_kernel(1) [OF init, of 2]
    by (simp add: f(2) scenario_grid_def scenario_sigmas_def py_slice_def slice_bound_def)
  have lens: "map length (sigma_dict d) = [7, 11, 3]"
  proof (rule nth_equalityI)
    show "length (map length (sigma_dict d)) = length [7, 11, 3 :: nat]"
      by (simp add: l3)
    fix i assume "i < length (map length (sigma_dict d))"
    then have "i = 0 \<or> i = 1 \<or> i = 2" using l3 by auto
    then show "map length (sigma_dict d) ! i = [7, 11, 3] ! i"
      using k0 k1 k2 l3 by auto
  qed
  have bad: "\<not> entry_ok d 2"
    by (simp add: entry_ok_def k2 f(2))
  have cdf2: "sigma_dict_cdf d ! 2 = cumsum (sigma_dict d ! 2)"
    using l3 by (simp add: g(12))
  have sk: "stack_kernel d pdf 5 2 wt = Inl IndexError" for pdf wt
    by (simp add: stack_kernel_def py_get_def l3 lc f(1,2) cdf2 k2 Let_def kde_norm_def)
  have ft: "fit d [0] [3 / 2] = Inr ([5], [2])"
    by (simp add: fit_def g(5,6,7,8,9) scenario_grid_def scenario_sigmas_def
        mean_index_def sigma_index_def np_round_def py_get_def Let_def)
  have sel: "sel_arr [1] (Some (1 / 1000)) c = Inr [0]" for c
    by (simp add: sel_arr_def select_wt_def)
  have run: "gauss_kde_dict d (Some [0]) (Some [3 / 2]) None None None (Some (1 / 1000))
       (Some (2 / 10000)) = Inl IndexError"
    by (simp add: gauss_kde_dict_def kde_inputs_def ft Let_def sel py_get_def sk)
  show ?thesis
    by (intro exI [of _ d] conjI init f(2) lens k2 bad run)
qed

subsection \<open>Mass of one stacked kernel\<close>

text \<open>
  C2. For a well-formed entry and an observation whose clipped window is not empty
  (\<open>low < high\<close>), the normaliser computed from the stored CDF is the sum of the pasted
  part \<^verbatim>\<open>kernel[lpad : 2*width+1+hpad]\<close> of the kernel and is not zero, that part has
  \<open>high - low\<close> values, the step succeeds and adds \<open>wt / norm\<close> times that part at
  \<open>low\<close>; what it adds sums to the weight \<open>wt\<close>, so the sum of the array grows by
  exactly \<open>wt\<close>. This covers the window inside the grid (\<open>lpad = hpad = 0\<close>) and the
  window clipped on either side or both.
\<close>

theorem clipped_kernel_keeps_weight:
  assumes ok: "entry_ok pdfdict i"
    and nx: "length pdf = nat (Ngrid pdfdict)"
    and w: "w = sigma_width pdfdict ! i"
    and low: "low = max (pos - w) 0" and high: "high = min (pos + w + 1) (Ngrid pdfdict)"
    and ne: "low < high"
    and lpad: "lpad = low - (pos - w)" and hpad: "hpad = high - (pos + w + 1)"
    and sl: "sl = py_slice (sigma_dict pdfdict ! i) lpad (2 * w + 1 + hpad)"
  shows "\<exists>norm. kde_norm (sigma_dict_cdf pdfdict ! i) lpad hpad = Inr norm \<and>
           norm = sum_list sl \<and> norm \<noteq> 0 \<and> length sl = nat (high - low) \<and>
           stack_kernel pdfdict pdf pos (int i) wt
             = Inr (add_at pdf (nat low) (map (\<lambda>k. wt / norm * k) sl)) \<and>
           sum_list (map (\<lambda>k. wt / norm * k) sl) = wt \<and>
           sum_list (add_at pdf (nat low) (map (\<lambda>k. wt / norm * k) sl)) = sum_list pdf + wt"
proof -
  let ?k = "sigma_dict pdfdict ! i"
  let ?a = "nat lpad" and ?b = "nat (2 * w + 1 + hpad)"
  have len: "int (length ?k) = 2 * w + 1"
    and cdf: "sigma_dict_cdf pdfdict ! i = cumsum ?k"
    and pos: "list_all (\<lambda>k. 0 < k) ?k"
    using ok by (simp_all add: entry_ok_def w)
  have w0: "0 \<le> w" using len by linarith
  have lp: "0 \<le> lpad" and hp: "hpad \<le> 0" and lh: "lpad < 2 * w + 1 + hpad"
    and hl: "high - low = 2 * w + 1 + hpad - lpad" and low0: "0 \<le> low"
    and hN: "high \<le> Ngrid pdfdict"
    using ne unfolding lpad hpad low high by simp_all
  have hp2: "- 2 * w \<le> hpad" using lh lp by linarith
  have lp2: "lpad \<le> 2 * w + 1" using lh hp by linarith
  have ab: "?a \<le> ?b" and b_len: "?b \<le> length ?k" using lh lp hp len by linarith+
  have norm: "kde_norm (cumsum ?k) lpad hpad
      = Inr (sum_list (take ?b ?k) - sum_list (take ?a ?k))"
    using hp2 lp2 by (simp add: kde_norm_cumsum [OF len lp hp])
  have slice: "sl = take (?b - ?a) (drop ?a ?k)"
    unfolding sl using lp lh len hp by (intro py_slice_nonneg) linarith+
  have diff: "sum_list (take ?b ?k) - sum_list (take ?a ?k) = sum_list sl"
    unfolding slice by (rule sum_list_take_diff [OF ab])
  have len_sl: "length sl = ?b - ?a"
    unfolding slice using b_len by (rule length_take_drop)
  then have len_hl: "length sl = nat (high - low)"
    using hl lp lh by linarith
  have "sl \<noteq> []" using len_hl ne by auto
  moreover have "list_all (\<lambda>k. 0 < k) sl"
    unfolding slice by (rule list_all_take_drop [OF pos])
  ultimately have gt: "0 < sum_list sl" by (simp add: sum_list_pos_nonempty)
  let ?vals = "map (\<lambda>k. wt / sum_list sl * k) sl"
  have scale: "scale_array (np_divide wt (sum_list sl)) sl = Inr ?vals"
    using gt by (simp add: scale_array_def np_divide_def)
  have sb_low: "slice_bound (length pdf) low = nat low"
    using low0 ne hN by (simp add: slice_bound_def nx)
  have sb_high: "slice_bound (length pdf) high = nat high"
    using low0 ne hN by (simp add: slice_bound_def nx)
  have "nat high - nat low = nat (high - low)" using low0 ne by linarith
  then have iadd: "slice_iadd pdf low high ?vals = Inr (add_at pdf (nat low) ?vals)"
    by (simp add: slice_iadd_def sb_low sb_high Let_def len_hl)
  have run: "stack_kernel pdfdict pdf pos (int i) wt = Inr (add_at pdf (nat low) ?vals)"
    by (simp only: stack_kernel_entry [OF ok w low high lpad hpad] norm diff and_then_Inr
        sl [symmetric] scale iadd)
  have "sum_list ?vals = wt / sum_list sl * sum_list sl"
    by (rule sum_list_scale)
  then have total: "sum_list ?vals = wt"
    using gt by simp
  have "nat low + length ?vals \<le> length pdf"
    using low0 ne hN by (simp add: len_hl nx)
  then have "sum_list (add_at pdf (nat low) ?vals) = sum_list pdf + sum_list ?vals"
    by (rule sum_list_add_at)
  with total have sum_pdf: "sum_list (add_at pdf (nat low) ?vals) = sum_list pdf + wt"
    by simp
  have "kde_norm (sigma_dict_cdf pdfdict ! i) lpad hpad = Inr (sum_list sl)"
    by (simp add: cdf norm diff)
  with gt len_hl run total sum_pdf show ?thesis
    by (intro exI [of _ "sum_list sl"]) simp
qed


theorem clipped_kernel_keeps_weight_witness:
  "\<exists>d. PDFDict_init scenario_grid scenario_sigmas 5 = Inr d \<and>
     entry_ok d 0 \<and>
     length (replicate 11 (0 :: real)) = nat (Ngrid d) \<and>
     (3 :: int) = sigma_width d ! 0 \<and>
     (0 :: int) = max (2 - 3) 0 \<and> (6 :: int) = min (2 + 3 + 1) (Ngrid d) \<and>
     (0 :: int) < 6 \<and>
     (1 :: int) = 0 - (2 - 3) \<and> (0 :: int) = 6 - (2 + 3 + 1) \<and>
     (\<exists>norm. kde_norm (sigma_dict_cdf d ! 0) 1 0 = Inr norm \<and>
           norm = sum_list (py_slice (sigma_dict d ! 0) 1 (2 * 3 + 1 + 0)) \<and> norm \<noteq> 0 \<and>
           length (py_slice (sigma_dict d ! 0) 1 (2 * 3 + 1 + 0)) = nat (6 - 0) \<and>
           stack_kernel d (replicate 11 0) 2 (int 0) 2
             = Inr (add_at (replicate 11 0) (nat 0)
                 (map (\<lambda>k. 2 / norm * k) (py_slice (sigma_dict d ! 0) 1 (2 * 3 + 1 + 0)))) \<and>
           sum_list (map (\<lambda>k. 2 / norm * k) (py_slice (sigma_dict d ! 0) 1 (2 * 3 + 1 + 0))) = 2 \<and>
           sum_list (add_at (replicate 11 0) (nat 0)
                 (map (\<lambda>k. 2 / norm * k) (py_slice (sigma_dict d ! 0) 1 (2 * 3 + 1 + 0))))
             = sum_list (replicate 11 0) + 2)"
proof -
  obtain d where init: "PDFDict_init scenario_grid scenario_sigmas 5 = Inr d"
    using scenario_dict_exists by blast
  note f = scenario_dict_facts [OF init]
  have h1: "entry_ok d 0" by (rule f(3))
  have h2: "length (replicate 11 (0 :: real)) = nat (Ngrid d)" by (simp add: f(1))
  have h3: "(3 :: int) = sigma_width d ! 0" by (simp add: f(2))
  have h4: "(0 :: int) = max (2 - 3) 0" by simp
  have h5: "(6 :: int) = min (2 + 3 + 1) (Ngrid d)" by (simp add: f(1))
  have h6: "(0 :: int) < 6" by simp
  have h7: "(1 :: int) = 0 - (2 - 3)" by simp
  have h8: "(0 :: int) = 6 - (2 + 3 + 1)" by simp
  show ?thesis
    by (intro exI [of _ d] conjI init h1 h2 h3 h4 h5 h6 h7 h8
        clipped_kernel_keeps_weight [OF h1 h2 h3 h4 h5 h6 h7 h8 refl])
qed

subsection \<open>A window clipped away entirely\<close>

text \<open>
  C3. On the dictionary of the concrete scenario (first entry, width \<open>3\<close>), the
  observations at the grid indices \<open>-5\<close> and \<open>14\<close> have windows \<open>[-8, -2]\<close> and
  \<open>[11, 17]\<close>, entirely off the grid \<open>[0, 11)\<close>: clipping removes the whole kernel. For
  neither is a zero normaliser computed and skipped: \<^verbatim>\<open>kcdf[lpad-1] = kcdf[7]\<close> for the
  first and \<^verbatim>\<open>kcdf[hpad-1] = kcdf[-8]\<close> for the second are out of range on a CDF of
  seven values, and the call raises IndexError.
\<close>

theorem fully_clipped_window_raises:
  "\<exists>d. PDFDict_init scenario_grid scenario_sigmas 5 = Inr d \<and>
     gauss_kde_dict d None None (Some [- 5]) (Some [0]) None (Some (1 / 1000)) (Some (2 / 10000))
       = Inl IndexError \<and>
     gauss_kde_dict d None None (Some [14]) (Some [0]) None (Some (1 / 1000)) (Some (2 / 10000))
       = Inl IndexError"
proof -
  obtain d where init: "PDFDict_init scenario_grid scenario_sigmas 5 = Inr d"
    using scenario_dict_exists by blast
  note f = scenario_dict_facts [OF init]
  have w: "(3 :: int) = sigma_width d ! 0" by (simp add: f(2))
  have nx: "0 \<le> Ngrid d" by (simp add: f(1))
  have left: "- 5 + 3 + 1 < (0 :: int) \<or> Ngrid d \<le> - 5 - 3" by simp
  have right: "14 + 3 + 1 < (0 :: int) \<or> Ngrid d \<le> 14 - 3" by (simp add: f(1))
  have kl: "stack_kernel d pdf (- 5) 0 wt = Inl IndexError" for pdf wt
    using stack_kernel_off_grid [OF f(3) w nx left, of pdf wt] by simp
  have kr: "stack_kernel d pdf 14 0 wt = Inl IndexError" for pdf wt
    using stack_kernel_off_grid [OF f(3) w nx right, of pdf wt] by simp
  have sel: "sel_arr [1] (Some (1 / 1000)) c = Inr [0]" for c
    by (simp add: sel_arr_def select_wt_def)
  have "gauss_kde_dict d None None (Some [- 5]) (Some [0]) None (Some (1 / 1000)) (Some (2 / 10000))
       = Inl IndexError"
    by (simp add: gauss_kde_dict_def kde_inputs_def Let_def sel py_get_def kl)
  moreover have "gauss_kde_dict d None None (Some [14]) (Some [0]) None (Some (1 / 1000)) (Some (2 / 10000))
       = Inl IndexError"
    by (simp add: gauss_kde_dict_def kde_inputs_def Let_def sel py_get_def kr)
  ultimately show ?thesis by (intro exI [of _ d] conjI init)
qed

text \<open>
  The one window clipped away entirely that does not raise is the one that ends just
  before the grid, \<open>pos = -width - 1\<close>. For a well-formed entry, whenever the normaliser
  is computed and equals \<open>0\<close>, the pasted part of the kernel is empty: the quotient
  \<^verbatim>\<open>y_wt[i] / norm\<close> is not finite but multiplies an empty array, the target slice is
  empty too, and the step returns the array unchanged.
\<close>

lemma zero_norm_contributes_nothing:
  assumes ok: "entry_ok pdfdict i"
    and w: "w = sigma_width pdfdict ! i"
    and low: "low = max (pos - w) 0" and high: "high = min (pos + w + 1) (Ngrid pdfdict)"
    and lpad: "lpad = low - (pos - w)" and hpad: "hpad = high - (pos + w + 1)"
    and zero: "kde_norm (sigma_dict_cdf pdfdict ! i) lpad hpad = Inr 0"
  shows "stack_kernel pdfdict pdf pos (int i) wt = Inr pdf"
proof -
  let ?k = "sigma_dict pdfdict ! i"
  let ?a = "nat lpad" and ?b = "nat (2 * w + 1 + hpad)"
  have len: "int (length ?k) = 2 * w + 1"
    and cdf: "sigma_dict_cdf pdfdict ! i = cumsum ?k"
    and pos: "list_all (\<lambda>k. 0 < k) ?k"
    using ok by (simp_all add: entry_ok_def w)
  have lp: "0 \<le> lpad" and hp: "hpad \<le> 0"
    and hl: "high - low = 2 * w + 1 + hpad - lpad"
    unfolding lpad hpad low high by simp_all
  have z: "kde_norm (cumsum ?k) lpad hpad = Inr 0"
    using zero by (simp add: cdf)
  have valid: "\<not> (hpad < - 2 * w \<or> 2 * w + 1 < lpad)"
    using z unfolding kde_norm_cumsum [OF len lp hp] by (auto split: if_splits)
  then have eq: "sum_list (take ?b ?k) - sum_list (take ?a ?k) = 0"
    using z unfolding kde_norm_cumsum [OF len lp hp] by simp
  have a_len: "?a \<le> length ?k" and b_len: "?b \<le> length ?k"
    using valid len hp lp by linarith+
  have ab: "?a = ?b"
  proof (rule ccontr)
    assume neq: "?a \<noteq> ?b"
    show False
    proof (cases "?a < ?b")
      case True
      then have "take (?b - ?a) (drop ?a ?k) \<noteq> []" using b_len by (rule take_drop_nonempty)
      then have "0 < sum_list (take (?b - ?a) (drop ?a ?k))"
        using list_all_take_drop [OF pos] by (simp add: sum_list_pos_nonempty)
      then show False
        using eq sum_list_take_diff [of ?a ?b ?k] True by simp
    next
      case False
      then have lt: "?b < ?a" using neq by linarith
      then have "take (?a - ?b) (drop ?b ?k) \<noteq> []" using a_len by (rule take_drop_nonempty)
      then have "0 < sum_list (take (?a - ?b) (drop ?b ?k))"
        using list_all_take_drop [OF pos] by (simp add: sum_list_pos_nonempty)
      then show False
        using eq sum_list_take_diff [of ?b ?a ?k] lt by simp
    qed
  qed
  then have lpad_eq: "2 * w + 1 + hpad = lpad"
    using valid lp by linarith
  then have same: "high = low" using hl by simp
  have empty: "py_slice ?k lpad (2 * w + 1 + hpad) = []"
    by (simp add: lpad_eq py_slice_def Let_def)
  have scale: "scale_array (np_divide wt 0) [] = Inr []"
    by (simp add: scale_array_def np_divide_def)
  have iadd: "slice_iadd pdf low high [] = Inr pdf"
    by (simp add: slice_iadd_def same Let_def)
  show ?thesis
    by (simp only: stack_kernel_entry [OF ok w low high lpad hpad] z and_then_Inr empty
        scale iadd)
qed


lemma zero_norm_contributes_nothing_example:
  "\<exists>d. PDFDict_init scenario_grid scenario_sigmas 5 = Inr d \<and>
     entry_ok d 0 \<and>
     (3 :: int) = sigma_width d ! 0 \<and>
     (0 :: int) = max (- 4 - 3) 0 \<and> (0 :: int) = min (- 4 + 3 + 1) (Ngrid d) \<and>
     (7 :: int) = 0 - (- 4 - 3) \<and> (0 :: int) = 0 - (- 4 + 3 + 1) \<and>
     kde_norm (sigma_dict_cdf d ! 0) 7 0 = Inr 0 \<and>
     stack_kernel d (replicate 11 0) (- 4) (int 0) 2 = Inr (replicate 11 0)"
proof -
  obtain d where init: "PDFDict_init scenario_grid scenario_sigmas 5 = Inr d"
    using scenario_dict_exists by blast
  note f = scenario_dict_facts [OF init]
  have h1: "entry_ok d 0" by (rule f(3))
  have h3: "(3 :: int) = sigma_width d ! 0" by (simp add: f(2))
  have h4: "(0 :: int) = max (- 4 - 3) 0" by simp
  have h5: "(0 :: int) = min (- 4 + 3 + 1) (Ngrid d)" by (simp add: f(1))
  have h7: "(7 :: int) = 0 - (- 4 - 3)" by simp
  have h8: "(0 :: int) = 0 - (- 4 + 3 + 1)" by simp
  have len: "int (length (sigma_dict d ! 0)) = 2 * 3 + 1"
    using h1 by (simp add: entry_ok_def f(2))
  have cdf: "sigma_dict_cdf d ! 0 = cumsum (sigma_dict d ! 0)"
    using h1 by (simp add: entry_ok_def)
  have h9: "kde_norm (sigma_dict_cdf d ! 0) 7 0 = Inr 0"
    unfolding cdf by (subst kde_norm_cumsum [OF len]) simp_all
  show ?thesis
    by (intro exI [of _ d] conjI init h1 h3 h4 h5 h7 h8 h9
        zero_norm_contributes_nothing [OF h1 h3 h4 h5 h7 h8 h9])
qed

text \<open>
  There is no guard \<^verbatim>\<open>norm != 0\<close> in the loop. Where kernel values are zero (in float64
  the tails of a narrow kernel underflow to \<open>0.0\<close>; in exact arithmetic a Gaussian never
  is), a window clipped down to such values has a zero normaliser on a slice that is not
  empty, and the step stores non-finite values.
\<close>

lemma zero_norm_on_zero_values:
  assumes "sigma_dict pdfdict = [[0, 20, 0]]" and "sigma_width pdfdict = [1]"
    and "sigma_dict_cdf pdfdict = [[0, 20, 20]]" and "Ngrid pdfdict = 5"
  shows "stack_kernel pdfdict pdf (- 1) 0 wt = Inl NonFinite"
  using assms
  by (simp add: stack_kernel_def py_get_def kde_norm_def np_divide_def scale_array_def
      py_slice_def slice_bound_def Let_def)

subsection \<open>An observation far outside the grid\<close>

text \<open>
  C1. On the dictionary of the concrete scenario, the batch of the two observations at the
  grid indices \<open>-10^6\<close> and \<open>5\<close> (weights \<open>1\<close> and \<open>2\<close>, both selected): for the first one
  \<open>low = 0\<close>, \<open>high = -999996\<close>, \<open>lpad = 1000003\<close> and \<^verbatim>\<open>kcdf[lpad-1]\<close> is out of range.
  The call raises IndexError; the second observation is never reached.
\<close>

theorem off_grid_observation_raises:
  "\<exists>d. PDFDict_init scenario_grid scenario_sigmas 5 = Inr d \<and>
     gauss_kde_dict d None None (Some [- 1000000, 5]) (Some [0, 1]) (Some [1, 2])
       (Some (1 / 1000)) (Some (2 / 10000)) = Inl IndexError"
proof -
  obtain d where init: "PDFDict_init scenario_grid scenario_sigmas 5 = Inr d"
    using scenario_dict_exists by blast
  note f = scenario_dict_facts [OF init]
  have w: "(3 :: int) = sigma_width d ! 0" by (simp add: f(2))
  have nx: "0 \<le> Ngrid d" by (simp add: f(1))
  have off: "- 1000000 + 3 + 1 < (0 :: int) \<or> Ngrid d \<le> - 1000000 - 3" by simp
  have k0: "stack_kernel d pdf (- 1000000) 0 wt = Inl IndexError" for pdf wt
    using stack_kernel_off_grid [OF f(3) w nx off, of pdf wt] by simp
  have sel: "sel_arr [1, 2] (Some (1 / 1000)) c = Inr [0, 1]" for c
    by (simp add: sel_arr_def select_wt_def upt_rec)
  have "gauss_kde_dict d None None (Some [- 1000000, 5]) (Some [0, 1]) (Some [1, 2])
       (Some (1 / 1000)) (Some (2 / 10000)) = Inl IndexError"
    by (simp add: gauss_kde_dict_def kde_inputs_def Let_def sel py_get_def k0)
  with init show ?thesis by blast
qed

end
